theory Spec2Isabelle
  imports Main "HOL-Library.Word" "HOL-Library.Sublist"
begin

section \<open>Constants of the protocol (const.py)\<close>

type_synonym byte = "8 word"

definition LEVOLOR_DEVICE_NAME :: string where
  "LEVOLOR_DEVICE_NAME = ''Levolor''"

definition COMMAND_CHAR_UUID :: string where
  "COMMAND_CHAR_UUID = ''ab529201-5310-483a-b4d3-7f1eaa8134a0''"

definition INIT_CHAR_UUID :: string where
  "INIT_CHAR_UUID = ''ab529101-5310-483a-b4d3-7f1eaa8134a0''"

definition INIT_PAYLOAD :: "byte list" where
  "INIT_PAYLOAD = [0x88, 0xFA]"

definition CMD_PREFIX :: int where
  "CMD_PREFIX = 0xF1"

definition DEFAULT_RETRY_COUNT :: int where
  "DEFAULT_RETRY_COUNT = 3"

text \<open>Delays are kept in milliseconds: \<open>COMMAND_DELAY = 0.3\<close> seconds, and the
  cooldown \<open>asyncio.sleep(1.0)\<close> of the retry loop.\<close>

definition COMMAND_DELAY :: nat where
  "COMMAND_DELAY = 300"

definition RETRY_COOLDOWN :: nat where
  "RETRY_COOLDOWN = 1000"

datatype Action = OPEN | CLOSE | TILT_OPEN | TILT_CLOSE | FAVORITE | STOP

text \<open>The value of each member of the \<open>IntEnum\<close>.\<close>

fun action_value :: "Action \<Rightarrow> int" where
  "action_value OPEN = 0x01"
| "action_value CLOSE = 0x02"
| "action_value TILT_OPEN = 0x03"
| "action_value TILT_CLOSE = 0x04"
| "action_value FAVORITE = 0x05"
| "action_value STOP = 0x06"

section \<open>Exceptions and Python's \<open>bytes\<close>\<close>

text \<open>The exception classes the modules raise or catch. \<open>Invalid\<close> is the error of a
  voluptuous schema; \<open>OtherException\<close> stands for any further subclass of \<open>Exception\<close>
  that the BLE stack may raise.\<close>

datatype exn =
  BleakError | TimeoutError | HomeAssistantError | ValueError | Invalid | OtherException

text \<open>\<open>bytes(xs)\<close> raises \<open>ValueError\<close> unless every item is in \<open>range(256)\<close>.\<close>

definition bytes :: "int list \<Rightarrow> exn + byte list" where
  "bytes xs =
     (if list_all (\<lambda>x. 0 \<le> x \<and> x < 256) xs then Inr (map word_of_int xs)
      else Inl ValueError)"

text \<open>The expression \<open>bytes([CMD_PREFIX, action, channel])\<close>, written the same way in
  \<open>_send_command_once\<close> (coordinator.py) and in \<open>send_command\<close> (levolor_ble.py).\<close>

definition command_bytes :: "Action \<Rightarrow> int \<Rightarrow> exn + byte list" where
  "command_bytes action channel = bytes [CMD_PREFIX, action_value action, channel]"

section \<open>The BLE adapter\<close>

datatype BLEDevice = BLEDevice (device_address: string)

record service_info =
  discovery_name :: "string option"
  discovery_address :: string
  discovery_device :: BLEDevice

text \<open>Every call that reaches the Bluetooth stack or the event loop's timer, in the order
  it is made. A write carries the characteristic, the payload and the \<open>response\<close>
  argument (\<open>None\<close> when the call site leaves it out); a sleep carries milliseconds.\<close>

datatype call =
    BleDeviceFromAddress string
  | DiscoveredServiceInfo
  | Connect BLEDevice
  | WriteGattChar string "byte list" "bool option"
  | Sleep nat
  | Disconnect

text \<open>The adapter is any deterministic environment: the answer to a call may depend on
  the whole history of calls made before it. A \<open>Some e\<close> answer of connect, write or
  disconnect is the exception the call raises. \<open>is_connected\<close> is the client's property
  of that name, read without I/O.\<close>

record adapter =
  async_ble_device_from_address :: "call list \<Rightarrow> string \<Rightarrow> BLEDevice option"
  async_discovered_service_info :: "call list \<Rightarrow> service_info list"
  connect :: "call list \<Rightarrow> BLEDevice \<Rightarrow> exn option"
  write_gatt_char :: "call list \<Rightarrow> string \<Rightarrow> byte list \<Rightarrow> bool option \<Rightarrow> exn option"
  disconnect :: "call list \<Rightarrow> exn option"
  is_connected :: "call list \<Rightarrow> bool"

section \<open>The coordinator (coordinator.py)\<close>

record coordinator =
  address :: string

text \<open>Python's \<open>sub in s\<close> on strings.\<close>

fun str_contains :: "string \<Rightarrow> string \<Rightarrow> bool" where
  "str_contains sub [] = (sub = [])"
| "str_contains sub (c # s) = (prefix sub (c # s) \<or> str_contains sub s)"

text \<open>\<open>discovery.name and LEVOLOR_DEVICE_NAME in discovery.name\<close>: a missing or
  empty name is falsy.\<close>

definition name_matches :: "string option \<Rightarrow> bool" where
  "name_matches n =
     (case n of None \<Rightarrow> False
      | Some s \<Rightarrow> s \<noteq> [] \<and> str_contains LEVOLOR_DEVICE_NAME s)"

text \<open>The \<open>for discovery in discoveries\<close> loop of \<open>_find_device_by_name\<close>: the first
  match stores its address in the coordinator and returns its device.\<close>

fun find_loop :: "coordinator \<Rightarrow> service_info list \<Rightarrow> BLEDevice option \<times> coordinator" where
  "find_loop c [] = (None, c)"
| "find_loop c (discovery # discoveries) =
     (if name_matches (discovery_name discovery)
      then (Some (discovery_device discovery), c\<lparr>address := discovery_address discovery\<rparr>)
      else find_loop c discoveries)"

text \<open>\<open>_find_device_by_name\<close> (an identifier cannot start with an underscore here).\<close>

definition find_device_by_name ::
  "adapter \<Rightarrow> coordinator \<Rightarrow> call list \<Rightarrow> BLEDevice option \<times> coordinator \<times> call list" where
  "find_device_by_name ad c h =
     (case find_loop c (async_discovered_service_info ad h) of
        (found, c') \<Rightarrow> (found, c', h @ [DiscoveredServiceInfo]))"

text \<open>The first lines of \<open>_send_command_once\<close>: look the stored address up, and search
  by name when the lookup finds nothing.\<close>

definition resolve_device ::
  "adapter \<Rightarrow> coordinator \<Rightarrow> call list \<Rightarrow> BLEDevice option \<times> coordinator \<times> call list" where
  "resolve_device ad c h =
     (case async_ble_device_from_address ad h (address c) of
        Some ble_device \<Rightarrow> (Some ble_device, c, h @ [BleDeviceFromAddress (address c)])
      | None \<Rightarrow> find_device_by_name ad c (h @ [BleDeviceFromAddress (address c)]))"

text \<open>The \<open>try\<close>/\<open>except BleakError\<close> around the command write: an acknowledged write,
  and on \<open>BleakError\<close> the same bytes without acknowledgement.\<close>

definition write_command :: "adapter \<Rightarrow> byte list \<Rightarrow> call list \<Rightarrow> exn option \<times> call list" where
  "write_command ad command h =
     (case write_gatt_char ad h COMMAND_CHAR_UUID command (Some True) of
        None \<Rightarrow> (None, h @ [WriteGattChar COMMAND_CHAR_UUID command (Some True)])
      | Some e \<Rightarrow>
          (if e = BleakError
           then (write_gatt_char ad (h @ [WriteGattChar COMMAND_CHAR_UUID command (Some True)])
                   COMMAND_CHAR_UUID command (Some False),
                 h @ [WriteGattChar COMMAND_CHAR_UUID command (Some True),
                      WriteGattChar COMMAND_CHAR_UUID command (Some False)])
           else (Some e, h @ [WriteGattChar COMMAND_CHAR_UUID command (Some True)])))"

text \<open>The body of the \<open>async with BleakClient(ble_device) as client\<close> block.\<close>

definition command_session ::
  "adapter \<Rightarrow> Action \<Rightarrow> int \<Rightarrow> call list \<Rightarrow> (exn + bool) \<times> call list" where
  "command_session ad action channel h =
     (case write_gatt_char ad h INIT_CHAR_UUID INIT_PAYLOAD None of
        Some e \<Rightarrow> (Inl e, h @ [WriteGattChar INIT_CHAR_UUID INIT_PAYLOAD None])
      | None \<Rightarrow>
          (case command_bytes action channel of
             Inl e \<Rightarrow> (Inl e, h @ [WriteGattChar INIT_CHAR_UUID INIT_PAYLOAD None])
           | Inr command \<Rightarrow>
               (case write_command ad command (h @ [WriteGattChar INIT_CHAR_UUID INIT_PAYLOAD None]) of
                  (Some e, h') \<Rightarrow> (Inl e, h')
                | (None, h') \<Rightarrow> (Inr True, h' @ [Sleep COMMAND_DELAY]))))"

text \<open>\<open>async with BleakClient(ble_device)\<close>: entering connects, and a failed connect
  never runs the body nor the exit; leaving disconnects on every path out of the body,
  and an exception of the disconnect replaces the body's outcome.\<close>

definition with_BleakClient ::
  "adapter \<Rightarrow> BLEDevice \<Rightarrow> (call list \<Rightarrow> (exn + 'a) \<times> call list) \<Rightarrow> call list
     \<Rightarrow> (exn + 'a) \<times> call list" where
  "with_BleakClient ad ble_device body h =
     (case connect ad h ble_device of
        Some e \<Rightarrow> (Inl e, h @ [Connect ble_device])
      | None \<Rightarrow>
          (case body (h @ [Connect ble_device]) of
             (r, h') \<Rightarrow>
               (case disconnect ad h' of
                  Some e \<Rightarrow> (Inl e, h' @ [Disconnect])
                | None \<Rightarrow> (r, h' @ [Disconnect]))))"

text \<open>\<open>_send_command_once\<close>.\<close>

definition send_command_once ::
  "adapter \<Rightarrow> coordinator \<Rightarrow> Action \<Rightarrow> int \<Rightarrow> call list
     \<Rightarrow> (exn + bool) \<times> coordinator \<times> call list" where
  "send_command_once ad c action channel h =
     (case resolve_device ad c h of
        (None, c', h') \<Rightarrow> (Inl HomeAssistantError, c', h')
      | (Some ble_device, c', h') \<Rightarrow>
          (case with_BleakClient ad ble_device (command_session ad action channel) h' of
             (r, h'') \<Rightarrow> (r, c', h'')))"

text \<open>Python's \<open>range(n)\<close>, empty for \<open>n \<le> 0\<close>.\<close>

definition py_range :: "int \<Rightarrow> int list" where
  "py_range n = [0..n - 1]"

text \<open>The \<open>for attempt in range(retry_count)\<close> loop of \<open>async_send_command\<close>, over the
  attempts still to run. Only \<open>BleakError\<close> and \<open>TimeoutError\<close> are caught; falling
  out of the loop returns \<open>False\<close>.\<close>

fun retry_loop ::
  "adapter \<Rightarrow> Action \<Rightarrow> int \<Rightarrow> int \<Rightarrow> int list \<Rightarrow> coordinator \<Rightarrow> call list
     \<Rightarrow> (exn + bool) \<times> coordinator \<times> call list" where
  "retry_loop ad action channel retry_count [] c h = (Inr False, c, h)"
| "retry_loop ad action channel retry_count (attempt # attempts) c h =
     (case send_command_once ad c action channel h of
        (Inr success, c', h') \<Rightarrow>
          (if success then (Inr True, c', h')
           else retry_loop ad action channel retry_count attempts c' h')
      | (Inl err, c', h') \<Rightarrow>
          (if err = BleakError \<or> err = TimeoutError
           then retry_loop ad action channel retry_count attempts c'
                  (if attempt < retry_count - 1 then h' @ [Sleep RETRY_COOLDOWN] else h')
           else (Inl err, c', h')))"

definition async_send_command ::
  "adapter \<Rightarrow> coordinator \<Rightarrow> Action \<Rightarrow> int \<Rightarrow> int \<Rightarrow> call list
     \<Rightarrow> (exn + bool) \<times> coordinator \<times> call list" where
  "async_send_command ad c action channel retry_count h =
     retry_loop ad action channel retry_count (py_range retry_count) c h"

section \<open>The standalone client (levolor_ble.py)\<close>

record LevolorRemote =
  remote_address :: "string option"
  client :: "string option"

definition COMMAND_SETTLE :: nat where
  "COMMAND_SETTLE = 500"

text \<open>\<open>LevolorRemote.send_command\<close>. The inner \<open>except Exception\<close> sends the same bytes
  without acknowledgement after any exception of the acknowledged write; the outer
  \<open>except BleakError\<close> turns a \<open>BleakError\<close> of that second write into \<open>False\<close>.\<close>

definition send_command ::
  "adapter \<Rightarrow> LevolorRemote \<Rightarrow> Action \<Rightarrow> int \<Rightarrow> call list \<Rightarrow> (exn + bool) \<times> call list" where
  "send_command ad remote action channel h =
     (if client remote = None then (Inr False, h)
      else if \<not> is_connected ad h then (Inr False, h)
      else if channel < 1 \<or> channel > 6 then (Inr False, h)
      else
        (case command_bytes action channel of
           Inl e \<Rightarrow> (Inl e, h)
         | Inr command \<Rightarrow>
             (case write_gatt_char ad h COMMAND_CHAR_UUID command (Some True) of
                None \<Rightarrow>
                  (Inr True,
                   h @ [WriteGattChar COMMAND_CHAR_UUID command (Some True), Sleep COMMAND_SETTLE])
              | Some e \<Rightarrow>
                  (case write_gatt_char ad (h @ [WriteGattChar COMMAND_CHAR_UUID command (Some True)])
                          COMMAND_CHAR_UUID command (Some False) of
                     None \<Rightarrow>
                       (Inr True,
                        h @ [WriteGattChar COMMAND_CHAR_UUID command (Some True),
                             WriteGattChar COMMAND_CHAR_UUID command (Some False),
                             Sleep COMMAND_SETTLE])
                   | Some e' \<Rightarrow>
                       (if e' = BleakError then Inr False else Inl e',
                        h @ [WriteGattChar COMMAND_CHAR_UUID command (Some True),
                             WriteGattChar COMMAND_CHAR_UUID command (Some False)])))))"

section \<open>The channel field of the config flow (config_flow.py)\<close>

text \<open>The dictionary given to \<open>vol.In\<close> for \<open>CONF_CHANNEL\<close>, in both forms.\<close>

definition CHANNEL_OPTIONS :: "(int \<times> string) list" where
  "CHANNEL_OPTIONS =
     [(1, ''Channel 1''), (2, ''Channel 2''), (3, ''Channel 3''),
      (4, ''Channel 4''), (5, ''Channel 5''), (6, ''Channel 6'')]"

text \<open>\<open>vol.In(container)\<close> accepts a value that is a key of the container and raises
  \<open>Invalid\<close> for any other.\<close>

definition vol_In :: "(int \<times> string) list \<Rightarrow> int \<Rightarrow> exn + int" where
  "vol_In container v = (if v \<in> set (map fst container) then Inr v else Inl Invalid)"

section \<open>The cover entity (cover.py)\<close>

record cover =
  cover_channel :: int
  current_cover_position :: "int option"
  is_closed :: "bool option"
  is_opening :: bool
  is_closing :: bool
  available :: bool

definition ATTR_POSITION :: string where
  "ATTR_POSITION = ''position''"

text \<open>\<open>async_open_cover\<close> and \<open>async_close_cover\<close>: the flags are set, the command is sent
  with the default retry count, and the outcome is written to the entity. An exception of
  \<open>async_send_command\<close> leaves the method before the flags are reset.\<close>

definition async_open_cover ::
  "adapter \<Rightarrow> coordinator \<Rightarrow> cover \<Rightarrow> call list
     \<Rightarrow> (exn + unit) \<times> coordinator \<times> cover \<times> call list" where
  "async_open_cover ad c entity h =
     (case async_send_command ad c OPEN (cover_channel entity) DEFAULT_RETRY_COUNT h of
        (Inl e, c', h') \<Rightarrow> (Inl e, c', entity\<lparr>is_opening := True, is_closing := False\<rparr>, h')
      | (Inr success, c', h') \<Rightarrow>
          (Inr (), c',
           (if success
            then entity\<lparr>is_opening := False, is_closing := False,
                        current_cover_position := Some 100, is_closed := Some False,
                        available := True\<rparr>
            else entity\<lparr>is_opening := False, is_closing := False, available := False\<rparr>),
           h'))"

definition async_close_cover ::
  "adapter \<Rightarrow> coordinator \<Rightarrow> cover \<Rightarrow> call list
     \<Rightarrow> (exn + unit) \<times> coordinator \<times> cover \<times> call list" where
  "async_close_cover ad c entity h =
     (case async_send_command ad c CLOSE (cover_channel entity) DEFAULT_RETRY_COUNT h of
        (Inl e, c', h') \<Rightarrow> (Inl e, c', entity\<lparr>is_closing := True, is_opening := False\<rparr>, h')
      | (Inr success, c', h') \<Rightarrow>
          (Inr (), c',
           (if success
            then entity\<lparr>is_closing := False, is_opening := False,
                        current_cover_position := Some 0, is_closed := Some True,
                        available := True\<rparr>
            else entity\<lparr>is_closing := False, is_opening := False, available := False\<rparr>),
           h'))"

text \<open>\<open>async_set_cover_position\<close>: \<open>kwargs.get(ATTR_POSITION, 50)\<close>, then open or close.\<close>

definition async_set_cover_position ::
  "adapter \<Rightarrow> coordinator \<Rightarrow> cover \<Rightarrow> (string \<rightharpoonup> int) \<Rightarrow> call list
     \<Rightarrow> (exn + unit) \<times> coordinator \<times> cover \<times> call list" where
  "async_set_cover_position ad c entity kwargs h =
     (let position = (case kwargs ATTR_POSITION of None \<Rightarrow> 50 | Some p \<Rightarrow> p)
      in if position \<ge> 50 then async_open_cover ad c entity h
         else async_close_cover ad c entity h)"

section \<open>Reading a call history\<close>

text \<open>The place of a call in one delivery: resolve (0 the address lookup, 1 the search by
  name), connect (2), the arming write of the init payload (3), the acknowledged (4) and
  unacknowledged (5) command write, the settle delay (6), disconnect (7). Any other call
  has no place (8).\<close>

fun step_rank :: "call \<Rightarrow> nat" where
  "step_rank (BleDeviceFromAddress a) = 0"
| "step_rank DiscoveredServiceInfo = 1"
| "step_rank (Connect d) = 2"
| "step_rank (WriteGattChar u p r) =
     (if u = INIT_CHAR_UUID \<and> p = INIT_PAYLOAD \<and> r = None then 3
      else if u = COMMAND_CHAR_UUID \<and> r = Some True then 4
      else if u = COMMAND_CHAR_UUID \<and> r = Some False then 5
      else 8)"
| "step_rank (Sleep ms) = (if ms = COMMAND_DELAY then 6 else 8)"
| "step_rank Disconnect = 7"

text \<open>Calls in delivery order: every call has a place and the places strictly increase,
  so no step is repeated and none comes before an earlier one.\<close>

definition in_deliver_order :: "call list \<Rightarrow> bool" where
  "in_deliver_order t =
     (sorted_wrt (<) (map step_rank t) \<and> list_all (\<lambda>n. n < 8) (map step_rank t))"

text \<open>Nothing is left open: either no call follows the connect, or the last call is the
  disconnect.\<close>

definition session_closed :: "call list \<Rightarrow> bool" where
  "session_closed t = (list_all (\<lambda>c. step_rank c \<le> 2) t \<or> last t = Disconnect)"

text \<open>The calls of one whole attempt: they start with the address lookup, are in delivery
  order and leave no connection open.\<close>

definition attempt_calls :: "call list \<Rightarrow> bool" where
  "attempt_calls t =
     (case t of
        [] \<Rightarrow> False
      | x # cs \<Rightarrow> step_rank x = 0 \<and> in_deliver_order t \<and> session_closed cs)"

text \<open>One iteration of the retry loop: an attempt, followed or not by the cooldown.\<close>

definition attempt_block :: "call list \<Rightarrow> bool" where
  "attempt_block b =
     (attempt_calls b \<or> (last b = Sleep RETRY_COOLDOWN \<and> attempt_calls (butlast b)))"

definition attempts_made :: "call list \<Rightarrow> nat" where
  "attempts_made t = length (filter (\<lambda>c. step_rank c = 0) t)"

text \<open>The command writes among the calls, with their payloads.\<close>

fun command_writes :: "call list \<Rightarrow> byte list list" where
  "command_writes [] = []"
| "command_writes (WriteGattChar u p r # cs) =
     (if u = COMMAND_CHAR_UUID then p # command_writes cs else command_writes cs)"
| "command_writes (x # cs) = command_writes cs"

section \<open>Adapters for concrete runs\<close>

text \<open>Every lookup finds the device and every call succeeds.\<close>

definition reliable_adapter :: adapter where
  "reliable_adapter =
     \<lparr>async_ble_device_from_address = (\<lambda>h a. Some (BLEDevice a)),
      async_discovered_service_info = (\<lambda>h. []),
      connect = (\<lambda>h d. None),
      write_gatt_char = (\<lambda>h u p r. None),
      disconnect = (\<lambda>h. None),
      is_connected = (\<lambda>h. True)\<rparr>"

text \<open>No device at the address and none advertising.\<close>

definition unreachable_adapter :: adapter where
  "unreachable_adapter = reliable_adapter\<lparr>async_ble_device_from_address := (\<lambda>h a. None)\<rparr>"

text \<open>Every connect fails.\<close>

definition refusing_adapter :: adapter where
  "refusing_adapter = reliable_adapter\<lparr>connect := (\<lambda>h d. Some BleakError)\<rparr>"

text \<open>Acknowledged writes are rejected, all other writes succeed.\<close>

definition unacknowledged_adapter :: adapter where
  "unacknowledged_adapter =
     reliable_adapter
       \<lparr>write_gatt_char := (\<lambda>h u p r. if r = Some True then Some BleakError else None)\<rparr>"

text \<open>No write to the command characteristic succeeds.\<close>

definition readonly_adapter :: adapter where
  "readonly_adapter =
     reliable_adapter
       \<lparr>write_gatt_char := (\<lambda>h u p r. if u = COMMAND_CHAR_UUID then Some BleakError else None)\<rparr>"

text \<open>The remote has moved to a new address and advertises under its name.\<close>

definition rotated_adapter :: adapter where
  "rotated_adapter =
     reliable_adapter
       \<lparr>async_ble_device_from_address :=
          (\<lambda>h a. if a = ''C0:FF:EE:00:00:02'' then Some (BLEDevice a) else None),
        async_discovered_service_info :=
          (\<lambda>h. [\<lparr>discovery_name = None, discovery_address = ''11:22:33:44:55:66'',
                    discovery_device = BLEDevice ''11:22:33:44:55:66''\<rparr>,
                  \<lparr>discovery_name = Some ''Levolor Remote'',
                    discovery_address = ''C0:FF:EE:00:00:02'',
                    discovery_device = BLEDevice ''C0:FF:EE:00:00:02''\<rparr>])\<rparr>"

definition remote_at :: "string \<Rightarrow> coordinator" where
  "remote_at a = \<lparr>address = a\<rparr>"

definition blind :: "int \<Rightarrow> cover" where
  "blind ch =
     \<lparr>cover_channel = ch, current_cover_position = None, is_closed = None,
      is_opening = False, is_closing = False, available = True\<rparr>"

section \<open>The command codec\<close>

lemma str_contains_sublist: "str_contains sub s = sublist sub s"
  by (induction s) (simp_all add: sublist_Cons_right)

text \<open>
  C1. For every action code and every channel from 1 to 6, the command bytes are built
  without error and are exactly the three bytes \<open>0xF1\<close>, the action's code, the channel:
  read back as unsigned numbers they are these three values. The frame is a function of
  the action and the channel alone: it takes no adapter and no call history, so it is
  deterministic and performs no I/O.
\<close>

theorem command_bytes_frame:
  assumes "1 \<le> channel" and "channel \<le> 6"
  shows "command_bytes action channel
           = Inr [0xF1, word_of_int (action_value action), word_of_int channel]
         \<and> map uint [0xF1 :: byte, word_of_int (action_value action), word_of_int channel]
           = [0xF1, action_value action, channel]"
proof -
  have a: "0 \<le> action_value action \<and> action_value action < 256"
    by (cases action) simp_all
  have "command_bytes action channel
          = Inr [0xF1, word_of_int (action_value action), word_of_int channel]"
    using assms a by (simp add: command_bytes_def bytes_def CMD_PREFIX_def)
  moreover have "uint (word_of_int (action_value action) :: byte) = action_value action"
    by (cases action) simp_all
  moreover have "uint (word_of_int channel :: byte) = channel"
    using assms by (simp add: uint_word_of_int)
  ultimately show ?thesis by simp
qed

theorem command_bytes_frame_witness:
  "(1::int) \<le> 4 \<and> (4::int) \<le> 6
   \<and> command_bytes STOP 4 = Inr [0xF1, 0x06, 0x04]"
  using command_bytes_frame [of 4 STOP] by simp

section \<open>The retry loop\<close>

text \<open>
  C9. With a retry count of zero or less the loop body never runs: \<open>async_send_command\<close>
  returns \<open>False\<close>, the call history is unchanged (no lookup, connect or write is made)
  and the coordinator keeps its address.
\<close>

theorem async_send_command_no_attempts:
  assumes "retry_count \<le> 0"
  shows "async_send_command ad c action channel retry_count h = (Inr False, c, h)"
  using assms by (simp add: async_send_command_def py_range_def)

theorem async_send_command_no_attempts_witness:
  "(0::int) \<le> 0
   \<and> async_send_command reliable_adapter (remote_at ''AA:BB:CC:DD:EE:FF'') OPEN 1 0 []
       = (Inr False, remote_at ''AA:BB:CC:DD:EE:FF'', [])"
  using async_send_command_no_attempts
          [of 0 reliable_adapter "remote_at ''AA:BB:CC:DD:EE:FF''" OPEN 1 "[]"]
  by simp

end
